theory Spec2Isabelle
  imports Complex_Main "HOL-Library.Multiset"
begin

section \<open>Data model (types.ts)\<close>

text \<open>
  JavaScript strings are sequences of UTF-16 code units; a code unit is modelled as a
  natural number. \<open>ascii\<close> embeds an ASCII literal. A JavaScript \<open>number\<close> that holds a
  coordinate or a scale factor is modelled as a rational (the arithmetic of the handlers
  is exact there; rounding of doubles is not modelled); a \<open>number\<close> that holds a counter
  (\<open>displayId\<close>, annotation id) is an \<open>int\<close>, an index or a count a \<open>nat\<close>. An optional
  field (\<open>field?: T\<close>) is an \<open>option\<close>.
\<close>

type_synonym jsstring = "nat list"

definition ascii :: "string \<Rightarrow> jsstring" where
  "ascii s = map of_char s"

text \<open>Truthiness of an optional string: \<open>undefined\<close> and \<open>''\<close> are falsy.\<close>

fun truthy :: "jsstring option \<Rightarrow> bool" where
  "truthy None = False"
| "truthy (Some s) = (s \<noteq> [])"

text \<open>\<open>xs[i]\<close>: \<open>undefined\<close> outside the array.\<close>

definition js_index :: "'a list \<Rightarrow> nat \<Rightarrow> 'a option" where
  "js_index xs i = (if i < length xs then Some (xs ! i) else None)"

datatype NodeType = IMAGE_UPLOAD | GENERATE_IMAGE

record Position =
  pos_x :: rat
  pos_y :: rat

record Annotation =
  ann_id :: int
  ann_x :: rat
  ann_y :: rat

record Layer =
  layer_id :: jsstring
  layer_name :: jsstring
  layer_prompt :: jsstring
  isEnabled :: bool

datatype Status = Idle | Loading | Success | Error

datatype AspectRatio = R1_1 | R16_9 | R9_16 | R3_4 | R4_3

datatype ImageResolution = Res1K | Res2K | Res4K

record NodeData =
  title :: jsstring
  displayId :: int
  imageUrl :: "jsstring option"
  annotations :: "Annotation list option"
  layers :: "Layer list option"
  prompt :: "jsstring option"
  generatedImage :: "jsstring option"
  generatedImages :: "jsstring list option"
  selectedImageIndex :: "nat option"
  status :: "Status option"
  model :: "jsstring option"
  aspectRatio :: "AspectRatio option"
  imageResolution :: "ImageResolution option"
  numberOfImages :: "nat option"

record Node =
  node_id :: jsstring
  node_type :: NodeType
  position :: Position
  data :: NodeData
  width :: rat
  height :: rat

record Connection =
  conn_id :: jsstring
  sourceId :: jsstring
  targetId :: jsstring

section \<open>Canvas state of AppContent\<close>

datatype DragMode = NODE | CANVAS | CONNECTION | IDLE

record DragState =
  isDragging :: bool
  mode :: DragMode
  startPos :: Position
  nodeStartPos :: "Position option"
  draggedNodeId :: "jsstring option"
  connectionStartNodeId :: "jsstring option"
  connectionCurrentPos :: "Position option"

text \<open>The part of \<open>getBoundingClientRect()\<close> that the handlers read.\<close>

record DOMRect =
  rect_left :: rat
  rect_top :: rat
  rect_width :: rat
  rect_height :: rat

record AppState =
  nodes :: "Node list"
  connections :: "Connection list"
  scale :: rat
  offset :: Position
  selectedNodeId :: "jsstring option"
  selectedConnectionId :: "jsstring option"
  dragState :: DragState

text \<open>\<open>nodes.find(n => n.id === nodeId)\<close>: the first node with that id.\<close>

definition find_node :: "Node list \<Rightarrow> jsstring \<Rightarrow> Node option" where
  "find_node ns nodeId = find (\<lambda>n. node_id n = nodeId) ns"

text \<open>
  \<open>updateNodeData(nodeId, data)\<close> merges a partial record into the data of every node
  with that id: \<open>{ ...n.data, ...data }\<close>. The partial record is modelled as the record
  update it performs.
\<close>

definition updateNodeData :: "jsstring \<Rightarrow> (NodeData \<Rightarrow> NodeData) \<Rightarrow> Node list \<Rightarrow> Node list" where
  "updateNodeData nodeId patch ns =
     map (\<lambda>n. if node_id n = nodeId then n\<lparr>data := patch (data n)\<rparr> else n) ns"

section \<open>Geometry\<close>

text \<open>
  \<open>screenToWorld\<close>: the first argument is the bounding rectangle of the canvas element,
  \<open>None\<close> when \<open>canvasRef.current\<close> is null. The view scale is never zero in the
  program (it starts at 1 and every update clamps it into [0.1, 3]).
\<close>

definition screenToWorld :: "DOMRect option \<Rightarrow> Position \<Rightarrow> rat \<Rightarrow> rat \<Rightarrow> rat \<Rightarrow> Position" where
  "screenToWorld canvas off k screenX screenY =
     (case canvas of
        None \<Rightarrow> \<lparr>pos_x = 0, pos_y = 0\<rparr>
      | Some rect \<Rightarrow>
          \<lparr>pos_x = (screenX - rect_left rect - pos_x off) / k,
           pos_y = (screenY - rect_top rect - pos_y off) / k\<rparr>)"

text \<open>
  The content layer is rendered with the style
  \<open>transform: translate(offset.x px, offset.y px) scale(scale)\<close> and origin top-left,
  inside the canvas element whose top-left corner is at \<open>(rect.left, rect.top)\<close>:
  a world point is painted at this screen point.
\<close>

definition contentTransform :: "DOMRect \<Rightarrow> Position \<Rightarrow> rat \<Rightarrow> Position \<Rightarrow> Position" where
  "contentTransform rect off k p =
     \<lparr>pos_x = pos_x p * k + pos_x off + rect_left rect,
      pos_y = pos_y p * k + pos_y off + rect_top rect\<rparr>"

section \<open>Pointer and wheel handlers\<close>

text \<open>
  \<open>handleMouseMove\<close>, with the body of the animation-frame callback applied at once
  (a pending callback is cancelled by the next move, so the callback that runs is the
  one of the last move).
\<close>

definition handleMouseMove :: "DOMRect option \<Rightarrow> rat \<Rightarrow> rat \<Rightarrow> AppState \<Rightarrow> AppState" where
  "handleMouseMove canvas clientX clientY s =
     (let d = dragState s in
      if \<not> isDragging d then s
      else if mode d = CANVAS then
        (let dx = clientX - pos_x (startPos d); dy = clientY - pos_y (startPos d) in
         s\<lparr>offset := \<lparr>pos_x = pos_x (offset s) + dx, pos_y = pos_y (offset s) + dy\<rparr>,
           dragState := d\<lparr>startPos := \<lparr>pos_x = clientX, pos_y = clientY\<rparr>\<rparr>\<rparr>)
      else if mode d = NODE \<and> truthy (draggedNodeId d) \<and> nodeStartPos d \<noteq> None then
        (let dx = (clientX - pos_x (startPos d)) / scale s;
             dy = (clientY - pos_y (startPos d)) / scale s in
         s\<lparr>nodes :=
             map (\<lambda>n. if Some (node_id n) = draggedNodeId d
                       then n\<lparr>position := \<lparr>pos_x = pos_x (the (nodeStartPos d)) + dx,
                                             pos_y = pos_y (the (nodeStartPos d)) + dy\<rparr>\<rparr>
                       else n) (nodes s)\<rparr>)
      else if mode d = CONNECTION then
        s\<lparr>dragState :=
            d\<lparr>connectionCurrentPos := Some (screenToWorld canvas (offset s) (scale s) clientX clientY)\<rparr>\<rparr>
      else s)"

text \<open>\<open>handleWheel\<close>: \<open>Math.min(Math.max(scale - e.deltaY * 0.001, 0.1), 3)\<close>.\<close>

definition handleWheel :: "rat \<Rightarrow> AppState \<Rightarrow> AppState" where
  "handleWheel deltaY s = s\<lparr>scale := min (max (scale s - deltaY * (1 / 1000)) (1 / 10)) 3\<rparr>"

section \<open>Annotations and image selection (NodeComponent)\<close>

text \<open>\<open>xs || []\<close> for an optional array.\<close>

definition orEmpty :: "'a list option \<Rightarrow> 'a list" where
  "orEmpty xs = (case xs of None \<Rightarrow> [] | Some ys \<Rightarrow> ys)"

text \<open>
  \<open>handleImageClick\<close>: \<open>node\<close> is the node the component renders, \<open>container\<close> the
  bounding rectangle of the image container (\<open>None\<close> when the ref is null). The new id
  is \<open>Math.max(...ids) + 1\<close> over the annotations the node holds now, and 1 when it
  holds none.
\<close>

definition handleImageClick ::
  "bool \<Rightarrow> DOMRect option \<Rightarrow> rat \<Rightarrow> rat \<Rightarrow> Node \<Rightarrow> Node list \<Rightarrow> Node list" where
  "handleImageClick isAnnotating container clientX clientY node ns =
     (case container of
        None \<Rightarrow> ns
      | Some rect \<Rightarrow>
          if \<not> isAnnotating \<or> \<not> truthy (imageUrl (data node)) then ns
          else
            (let x = ((clientX - rect_left rect) / rect_width rect) * 100;
                 y = ((clientY - rect_top rect) / rect_height rect) * 100;
                 currentAnnotations = orEmpty (annotations (data node));
                 newId = (if length currentAnnotations > 0
                          then Max (set (map ann_id currentAnnotations)) + 1
                          else 1)
             in updateNodeData (node_id node)
                  (\<lambda>d. d\<lparr>annotations :=
                             Some (currentAnnotations @ [\<lparr>ann_id = newId, ann_x = x, ann_y = y\<rparr>])\<rparr>)
                  ns))"

definition handleClearAnnotations :: "Node \<Rightarrow> Node list \<Rightarrow> Node list" where
  "handleClearAnnotations node ns = updateNodeData (node_id node) (\<lambda>d. d\<lparr>annotations := Some []\<rparr>) ns"

text \<open>
  \<open>handleSelectGeneratedImage\<close>: the guard \<open>!node.data.generatedImages[index]\<close> is a
  truthiness test, so it also returns when the element is the empty string (which no
  batch written by the trigger holds, see \<open>handleTriggerGeneration_batches\<close> below).
\<close>

definition handleSelectGeneratedImage :: "nat \<Rightarrow> Node \<Rightarrow> Node list \<Rightarrow> Node list" where
  "handleSelectGeneratedImage index node ns =
     (case generatedImages (data node) of
        None \<Rightarrow> ns
      | Some imgs \<Rightarrow>
          if \<not> truthy (js_index imgs index) then ns
          else updateNodeData (node_id node)
                 (\<lambda>d. d\<lparr>selectedImageIndex := Some index, generatedImage := js_index imgs index\<rparr>)
                 ns)"

text \<open>
  A user session on one image node: every event is handled by the component that
  renders the node as it is in the list at that moment.
\<close>

datatype AnnotationEvent = ImageClick rat rat | ClearAnnotations

fun annotate :: "DOMRect \<Rightarrow> jsstring \<Rightarrow> AnnotationEvent list \<Rightarrow> Node list \<Rightarrow> Node list" where
  "annotate rect nodeId [] ns = ns"
| "annotate rect nodeId (ev # evs) ns =
     (case find_node ns nodeId of
        None \<Rightarrow> ns
      | Some node \<Rightarrow>
          annotate rect nodeId evs
            (case ev of
               ImageClick cx cy \<Rightarrow> handleImageClick True (Some rect) cx cy node ns
             | ClearAnnotations \<Rightarrow> handleClearAnnotations node ns))"

definition annotation_ids :: "Node list \<Rightarrow> jsstring \<Rightarrow> int list" where
  "annotation_ids ns nodeId =
     (case find_node ns nodeId of
        None \<Rightarrow> []
      | Some n \<Rightarrow> map ann_id (orEmpty (annotations (data n))))"

section \<open>Prompt compilation\<close>

text \<open>The code units that \<open>String.prototype.trim\<close> strips: white space and line terminators.\<close>

definition is_whitespace :: "nat \<Rightarrow> bool" where
  "is_whitespace c \<longleftrightarrow>
     c \<in> {9, 10, 11, 12, 13, 32, 160, 5760, 8232, 8233, 8239, 8287, 12288, 65279}
     \<or> (8192 \<le> c \<and> c \<le> 8202)"

definition trim :: "jsstring \<Rightarrow> jsstring" where
  "trim s = rev (dropWhile is_whitespace (rev (dropWhile is_whitespace s)))"

text \<open>\<open>Array.prototype.join\<close>.\<close>

fun js_join :: "jsstring \<Rightarrow> jsstring list \<Rightarrow> jsstring" where
  "js_join sep [] = []"
| "js_join sep [s] = s"
| "js_join sep (s # t # ts) = s @ sep @ js_join sep (t # ts)"

text \<open>
  The head of \<open>handleTriggerGeneration\<close>: the layers that are enabled and whose prompt
  is not blank after \<open>trim()\<close>, joined by a line feed; otherwise the legacy \<open>prompt\<close>
  field; \<open>None\<close> is the early \<open>return\<close>.
\<close>

definition compilePrompt :: "NodeData \<Rightarrow> jsstring option" where
  "compilePrompt d =
     (let activeLayers = filter (\<lambda>l. isEnabled l \<and> trim (layer_prompt l) \<noteq> []) (orEmpty (layers d)) in
      if length activeLayers = 0 \<and> \<not> truthy (prompt d) then None
      else if length activeLayers > 0 then Some (js_join [10] (map layer_prompt activeLayers))
      else Some (case prompt d of None \<Rightarrow> [] | Some p \<Rightarrow> p))"

text \<open>
  The source nodes of the incoming connections. \<open>Array.prototype.sort\<close> is stable, as
  is \<open>sort_key\<close>.
\<close>

definition resolveSourceNodes :: "Node list \<Rightarrow> Connection list \<Rightarrow> jsstring \<Rightarrow> Node list" where
  "resolveSourceNodes ns cs nodeId =
     (let incomingConnections = filter (\<lambda>c. targetId c = nodeId) cs;
          sourceNodes = List.map_filter (\<lambda>conn. find_node ns (sourceId conn)) incomingConnections
      in sort_key (\<lambda>n. displayId (data n)) sourceNodes)"

text \<open>The image a source node contributes, if any (the \<open>if / else if\<close> of the loop body).\<close>

definition sourceImage :: "Node \<Rightarrow> jsstring option" where
  "sourceImage node =
     (if node_type node = IMAGE_UPLOAD \<and> truthy (imageUrl (data node)) then imageUrl (data node)
      else if node_type node = GENERATE_IMAGE \<and> truthy (generatedImage (data node))
           then generatedImage (data node)
      else None)"

text \<open>
  A correspondence note, kept as the values interpolated into its text: the ordinal
  written after the first character, the display id, and whether the caveat about the
  red markers is appended. \<open>render_note\<close> is the template literal.
\<close>

record MappingNote =
  note_ordinal :: nat
  note_displayId :: int
  note_marked :: bool

fun show_nat :: "nat \<Rightarrow> jsstring" where
  "show_nat n = (if n < 10 then [48 + n] else show_nat (n div 10) @ [48 + n mod 10])"

declare show_nat.simps [simp del]

definition show_int :: "int \<Rightarrow> jsstring" where
  "show_int i = (if i < 0 then 45 # show_nat (nat (- i)) else show_nat (nat i))"

definition render_note :: "MappingNote \<Rightarrow> jsstring" where
  "render_note m =
     [31532, 32] @ show_nat (note_ordinal m)
     @ [32, 24352, 22270, 29255, 23545, 24212, 32, 91, 22270] @ show_int (note_displayId m)
     @ (if note_marked m
        then [93, 32, 40, 22270, 29255, 19978, 24102, 26377, 32418, 33394, 25968, 23383, 26631, 35760, 41]
        else [93])"

datatype GenError = NotLoggedIn | ApiKeyMissing | BakeFailed | RequestFailed jsstring

text \<open>
  The loop over \<open>sourceNodes\<close>, \<open>i\<close> being the loop index. \<open>bake\<close> stands for
  \<open>bakeAnnotationsToImage\<close> (canvas drawing; \<open>None\<close> when the promise is rejected).
\<close>

fun collectReferences ::
  "(jsstring \<Rightarrow> Annotation list \<Rightarrow> jsstring option) \<Rightarrow> nat \<Rightarrow> Node list \<Rightarrow>
   jsstring list \<Rightarrow> MappingNote list \<Rightarrow> GenError + (jsstring list \<times> MappingNote list)" where
  "collectReferences bake i [] referenceImages idMappingDescription =
     Inr (referenceImages, idMappingDescription)"
| "collectReferences bake i (node # rest) referenceImages idMappingDescription =
     (case sourceImage node of
        None \<Rightarrow> collectReferences bake (i + 1) rest referenceImages idMappingDescription
      | Some imageData \<Rightarrow>
          if length (orEmpty (annotations (data node))) > 0 then
            (case bake imageData (orEmpty (annotations (data node))) of
               None \<Rightarrow> Inl BakeFailed
             | Some baked \<Rightarrow>
                 collectReferences bake (i + 1) rest (referenceImages @ [baked])
                   (idMappingDescription
                    @ [\<lparr>note_ordinal = i + 1, note_displayId = displayId (data node), note_marked = True\<rparr>]))
          else
            collectReferences bake (i + 1) rest (referenceImages @ [imageData])
              (idMappingDescription
               @ [\<lparr>note_ordinal = i + 1, note_displayId = displayId (data node), note_marked = False\<rparr>]))"

definition finalPrompt :: "jsstring \<Rightarrow> MappingNote list \<Rightarrow> jsstring" where
  "finalPrompt compiledPrompt idMappingDescription =
     (if length idMappingDescription > 0 then
        compiledPrompt @ [10, 10, 40, 22270, 29255, 24341, 29992, 35828, 26126, 58, 32]
        @ js_join [44, 32] (map render_note idMappingDescription)
        @ [12290, 35831, 26681, 25454, 27492, 23545, 24212, 20851, 31995, 21450, 22270, 29255,
           19978, 30340, 25968, 23383, 26631, 35760, 22788, 29702, 25552, 31034, 35789, 12290, 41]
      else compiledPrompt)"

section \<open>Generation service (services/geminiService.ts)\<close>

record GenerateImageOptions =
  opt_prompt :: jsstring
  opt_referenceImages :: "jsstring list option"
  opt_aspectRatio :: "AspectRatio option"
  opt_imageResolution :: "ImageResolution option"
  opt_numberOfImages :: nat

record SystemSettings =
  baseUrl :: jsstring
  modelName :: jsstring

record RequestBody =
  rb_model :: jsstring
  rb_images :: "jsstring list"
  rb_text :: jsstring

text \<open>
  \<open>Promise.all\<close>: fulfilled with all values in order when every promise is fulfilled,
  rejected as soon as one is. Which rejection comes first is a matter of timing; the
  model reports the first in list order.
\<close>

fun promise_all :: "('e + 'a) list \<Rightarrow> 'e + 'a list" where
  "promise_all [] = Inr []"
| "promise_all (Inl e # ps) = Inl e"
| "promise_all (Inr v # ps) = (case promise_all ps of Inl e \<Rightarrow> Inl e | Inr vs \<Rightarrow> Inr (v # vs))"

definition requestBody :: "GenerateImageOptions \<Rightarrow> jsstring \<Rightarrow> RequestBody" where
  "requestBody options modelId =
     \<lparr>rb_model = modelId,
      rb_images =
        map (\<lambda>base64Data. if take 5 base64Data = ascii ''data:'' then base64Data
                           else ascii ''data:image/png;base64,'' @ base64Data)
          (orEmpty (opt_referenceImages options)),
      rb_text = opt_prompt options\<rparr>"

text \<open>
  \<open>generateImageWithGemini\<close>. \<open>apiKey\<close> is the key read from the environment;
  \<open>remote k body\<close> is the outcome of the \<open>k\<close>-th \<open>performSingleGeneration\<close>, that is of
  posting \<open>body\<close> and extracting the image from the response: \<open>Inl\<close> the message of the
  error thrown, \<open>Inr\<close> the image data.
\<close>

definition generateImageWithGemini ::
  "jsstring option \<Rightarrow> (nat \<Rightarrow> RequestBody \<Rightarrow> jsstring + jsstring) \<Rightarrow>
   GenerateImageOptions \<Rightarrow> SystemSettings \<Rightarrow> GenError + jsstring list" where
  "generateImageWithGemini apiKey remote options settings =
     (if \<not> truthy apiKey then Inl ApiKeyMissing
      else
        (let modelId = (if modelName settings \<noteq> [] then modelName settings
                        else ascii ''gemini-2.5-flash-image-preview'');
             promises = map (\<lambda>k. remote k (requestBody options modelId))
                          [0 ..< opt_numberOfImages options]
         in case promise_all promises of
              Inl msg \<Rightarrow> Inl (RequestFailed msg)
            | Inr results \<Rightarrow> Inr results))"

section \<open>Generation trigger\<close>

text \<open>What \<open>handleTriggerGeneration\<close> reads besides the canvas state.\<close>

record Collaborators =
  user :: "jsstring option"
  apiKey :: "jsstring option"
  bake :: "jsstring \<Rightarrow> Annotation list \<Rightarrow> jsstring option"
  remote :: "nat \<Rightarrow> RequestBody \<Rightarrow> jsstring + jsstring"

definition systemSettings :: SystemSettings where
  "systemSettings =
     \<lparr>baseUrl = ascii ''https://api.vectorengine.ai'',
      modelName = ascii ''gemini-2.5-flash-image-preview''\<rparr>"

text \<open>The first \<open>updateNodeData\<close> of the handler.\<close>

definition setLoading :: "jsstring \<Rightarrow> Node list \<Rightarrow> Node list" where
  "setLoading nodeId ns =
     updateNodeData nodeId
       (\<lambda>d. d\<lparr>status := Some Loading, generatedImage := None, generatedImages := None\<rparr>) ns"

text \<open>
  The options passed to the service, built inside the \<open>try\<close> block; \<open>Inl\<close> when the
  block throws before the call.
\<close>

definition buildOptions ::
  "Collaborators \<Rightarrow> Node \<Rightarrow> jsstring \<Rightarrow> Node list \<Rightarrow> GenError + GenerateImageOptions" where
  "buildOptions co targetNode compiledPrompt sourceNodes =
     (case collectReferences (bake co) 0 sourceNodes [] [] of
        Inl e \<Rightarrow> Inl e
      | Inr (referenceImages, idMappingDescription) \<Rightarrow>
          (let requestedCount = (case numberOfImages (data targetNode) of
                                   None \<Rightarrow> 1
                                 | Some n \<Rightarrow> if n = 0 then 1 else n)
           in if user co = None then Inl NotLoggedIn
              else Inr \<lparr>opt_prompt = finalPrompt compiledPrompt idMappingDescription,
                        opt_referenceImages =
                          (if length referenceImages > 0 then Some referenceImages else None),
                        opt_aspectRatio = aspectRatio (data targetNode),
                        opt_imageResolution = imageResolution (data targetNode),
                        opt_numberOfImages = requestedCount\<rparr>))"

text \<open>
  The last \<open>updateNodeData\<close> of the handler, after the awaited call has settled: the
  success branch or the \<open>catch\<close> branch. It is applied to the node list as it is when
  the response arrives.
\<close>

definition settleGeneration :: "jsstring \<Rightarrow> GenError + jsstring list \<Rightarrow> Node list \<Rightarrow> Node list" where
  "settleGeneration nodeId outcome ns =
     (case outcome of
        Inr resultImages \<Rightarrow>
          updateNodeData nodeId
            (\<lambda>d. d\<lparr>status := Some Success, generatedImages := Some resultImages,
                    generatedImage := js_index resultImages 0, selectedImageIndex := Some 0\<rparr>) ns
      | Inl e \<Rightarrow> updateNodeData nodeId (\<lambda>d. d\<lparr>status := Some Error\<rparr>) ns)"

text \<open>
  The outcome of the awaited part of one trigger: the options sent to the service (if
  the call was reached) and the settled result.
\<close>

definition awaitGeneration ::
  "Collaborators \<Rightarrow> Node \<Rightarrow> jsstring \<Rightarrow> Node list \<Rightarrow>
   GenerateImageOptions option \<times> (GenError + jsstring list)" where
  "awaitGeneration co targetNode compiledPrompt sourceNodes =
     (case buildOptions co targetNode compiledPrompt sourceNodes of
        Inl e \<Rightarrow> (None, Inl e)
      | Inr options \<Rightarrow>
          (Some options,
           generateImageWithGemini (apiKey co) (remote co) options
             (systemSettings\<lparr>modelName :=
                (if truthy (model (data targetNode)) then the (model (data targetNode))
                 else modelName systemSettings)\<rparr>)))"

text \<open>
  \<open>handleTriggerGeneration\<close> run to completion with no other event in between. The
  result is the node list and the options the service was called with (\<open>None\<close> when it
  was not called).
\<close>

definition handleTriggerGeneration ::
  "Collaborators \<Rightarrow> Node list \<Rightarrow> Connection list \<Rightarrow> jsstring \<Rightarrow>
   Node list \<times> GenerateImageOptions option" where
  "handleTriggerGeneration co ns cs nodeId =
     (case find_node ns nodeId of
        None \<Rightarrow> (ns, None)
      | Some targetNode \<Rightarrow>
          (case compilePrompt (data targetNode) of
             None \<Rightarrow> (ns, None)
           | Some compiledPrompt \<Rightarrow>
               (let sourceNodes = resolveSourceNodes ns cs nodeId;
                    (sent, outcome) = awaitGeneration co targetNode compiledPrompt sourceNodes
                in (settleGeneration nodeId outcome (setLoading nodeId ns), sent))))"

section \<open>Node creation\<close>

text \<open>
  The object literal of \<open>addNode\<close>. The fresh UUIDs, the counter value and the centre of
  the view are computed before it; the two node widths are constants of a module that
  is not part of the sources read here, so they are parameters.
\<close>

definition newNode ::
  "rat \<Rightarrow> rat \<Rightarrow> NodeType \<Rightarrow> jsstring \<Rightarrow> jsstring \<Rightarrow> int \<Rightarrow> rat \<Rightarrow> rat \<Rightarrow> Node" where
  "newNode NODE_WIDTH_UPLOAD NODE_WIDTH_GEN type newId layerId currentId centerX centerY =
     \<lparr>node_id = newId,
      node_type = type,
      position =
        \<lparr>pos_x = centerX - (if type = IMAGE_UPLOAD then NODE_WIDTH_UPLOAD else NODE_WIDTH_GEN) / 2,
         pos_y = centerY - 150\<rparr>,
      data =
        \<lparr>title = (if type = IMAGE_UPLOAD then [36755, 20837, 22270, 29255]
                  else [65, 73, 32, 29983, 25104, 22120]),
         displayId = currentId,
         imageUrl = None,
         annotations = Some [],
         layers = Some (if type = GENERATE_IMAGE
                        then [\<lparr>layer_id = layerId, layer_name = [22522, 30784, 22270, 23618],
                               layer_prompt = [], isEnabled = True\<rparr>]
                        else []),
         prompt = Some [],
         generatedImage = None,
         generatedImages = None,
         selectedImageIndex = None,
         status = None,
         model = (if type = GENERATE_IMAGE then Some (ascii ''gemini-2.5-flash-image-preview'') else None),
         aspectRatio = Some R1_1,
         imageResolution = Some Res1K,
         numberOfImages = Some 1\<rparr>,
      width = (if type = IMAGE_UPLOAD then NODE_WIDTH_UPLOAD else NODE_WIDTH_GEN),
      height = 200\<rparr>"

section \<open>Notions used in the statements\<close>

text \<open>A layer that is enabled and whose prompt is not the empty string.\<close>

definition enabled_nonempty :: "Layer \<Rightarrow> bool" where
  "enabled_nonempty l \<longleftrightarrow> isEnabled l \<and> layer_prompt l \<noteq> []"

text \<open>A layer that is enabled and whose prompt has a character that is not white space.\<close>

definition enabled_nonblank :: "Layer \<Rightarrow> bool" where
  "enabled_nonblank l \<longleftrightarrow> isEnabled l \<and> (\<exists>c\<in>set (layer_prompt l). \<not> is_whitespace c)"

text \<open>
  The reference image a source node contributes to a request: its image, with the
  annotations baked in when it has any.
\<close>

definition contributes :: "Node \<Rightarrow> bool" where
  "contributes n \<longleftrightarrow> sourceImage n \<noteq> None"

definition contributed :: "(jsstring \<Rightarrow> Annotation list \<Rightarrow> jsstring option) \<Rightarrow> Node \<Rightarrow> jsstring option" where
  "contributed bk n =
     (case sourceImage n of
        None \<Rightarrow> None
      | Some img \<Rightarrow>
          if orEmpty (annotations (data n)) = [] then Some img
          else bk img (orEmpty (annotations (data n))))"

text \<open>
  NodeComponent renders the trigger button with \<open>disabled={isGenerating}\<close>, where
  \<open>isGenerating\<close> is \<open>node.data.status === 'loading'\<close>.
\<close>

definition isGenerating :: "Node \<Rightarrow> bool" where
  "isGenerating node \<longleftrightarrow> status (data node) = Some Loading"

text \<open>
  Several triggers on one generator, interleaved on the event loop. A call is named
  by a number; the handlers carry no such identifier, so the steps use it only to keep
  the books of which calls are suspended.

  \<^item> \<open>Click\<close>: the button is pressed. Nothing happens when the node is not rendered,
    when the button is disabled, or when the handler returns early for want of a
    prompt. Otherwise the handler runs: where the host defines \<open>window.aistudio\<close> it
    first awaits the host's key check (the call waits, the node is untouched);
    elsewhere it runs on without a pause to its first \<open>updateNodeData\<close>.
  \<^item> \<open>Resume\<close>: a waiting call continues after the key check and sets the node to
    loading; from then on it awaits its outcome.
  \<^item> \<open>Settle\<close>: the awaited part of a call has settled and its last
    \<open>updateNodeData\<close> is applied.
\<close>

record Pending =
  canvas_nodes :: "Node list"
  waiting :: "nat list"
  inFlight :: "nat list"

datatype GenEvent = Click nat | Resume nat | Settle nat "GenError + jsstring list"

fun generation_step :: "bool \<Rightarrow> jsstring \<Rightarrow> GenEvent \<Rightarrow> Pending \<Rightarrow> Pending" where
  "generation_step aistudio nodeId (Click call) s =
     (case find_node (canvas_nodes s) nodeId of
        None \<Rightarrow> s
      | Some node \<Rightarrow>
          if isGenerating node then s
          else if compilePrompt (data node) = None then s
          else if aistudio then s\<lparr>waiting := waiting s @ [call]\<rparr>
          else s\<lparr>canvas_nodes := setLoading nodeId (canvas_nodes s),
                 inFlight := inFlight s @ [call]\<rparr>)"
| "generation_step aistudio nodeId (Resume call) s =
     (if call \<in> set (waiting s)
      then s\<lparr>canvas_nodes := setLoading nodeId (canvas_nodes s),
             waiting := remove1 call (waiting s),
             inFlight := inFlight s @ [call]\<rparr>
      else s)"
| "generation_step aistudio nodeId (Settle call outcome) s =
     (if call \<in> set (inFlight s)
      then s\<lparr>canvas_nodes := settleGeneration nodeId outcome (canvas_nodes s),
             inFlight := remove1 call (inFlight s)\<rparr>
      else s)"

definition generation_run :: "bool \<Rightarrow> jsstring \<Rightarrow> GenEvent list \<Rightarrow> Pending \<Rightarrow> Pending" where
  "generation_run aistudio nodeId evs s = fold (generation_step aistudio nodeId) evs s"

text \<open>At most one call awaits its outcome, none waits, and the node shows loading while one does.\<close>

definition one_in_flight :: "jsstring \<Rightarrow> Pending \<Rightarrow> bool" where
  "one_in_flight nodeId s \<longleftrightarrow>
     waiting s = [] \<and>
     (inFlight s = [] \<or>
      (length (inFlight s) = 1 \<and>
       (case find_node (canvas_nodes s) nodeId of None \<Rightarrow> False | Some n \<Rightarrow> isGenerating n)))"

text \<open>
  The result state of a generator is consistent when the active image is the element
  of the batch at the selected index.
\<close>

definition selection_consistent :: "NodeData \<Rightarrow> bool" where
  "selection_consistent d \<longleftrightarrow>
     (case generatedImages d of
        None \<Rightarrow> False
      | Some imgs \<Rightarrow>
          (case selectedImageIndex d of
             None \<Rightarrow> False
           | Some i \<Rightarrow> generatedImage d = js_index imgs i))"

text \<open>
  A batch of result images is well formed when none of them is the empty string. The
  batch of a node is written only by the trigger: cleared when loading starts, and set
  from the images the service returns, each of which is a data URL.
\<close>

definition batch_wellformed :: "NodeData \<Rightarrow> bool" where
  "batch_wellformed d \<longleftrightarrow>
     (case generatedImages d of None \<Rightarrow> True | Some imgs \<Rightarrow> [] \<notin> set imgs)"

section \<open>Example canvases\<close>

definition example_rect :: DOMRect where
  "example_rect = \<lparr>rect_left = 100, rect_top = 50, rect_width = 400, rect_height = 200\<rparr>"

definition image_node :: "jsstring \<Rightarrow> int \<Rightarrow> jsstring option \<Rightarrow> Node" where
  "image_node newId currentId upload =
     (let n = newNode 300 400 IMAGE_UPLOAD newId [] currentId 500 400
      in n\<lparr>data := (data n)\<lparr>imageUrl := upload\<rparr>\<rparr>)"

definition generator_node :: "jsstring \<Rightarrow> int \<Rightarrow> jsstring \<Rightarrow> Node" where
  "generator_node newId currentId text =
     (let n = newNode 300 400 GENERATE_IMAGE newId (ascii ''layer-1'') currentId 900 400
      in n\<lparr>data := (data n)\<lparr>layers :=
            Some [\<lparr>layer_id = ascii ''layer-1'', layer_name = [22522, 30784, 22270, 23618],
                   layer_prompt = text, isEnabled = True\<rparr>]\<rparr>\<rparr>)"

definition example_collaborators :: "(nat \<Rightarrow> RequestBody \<Rightarrow> jsstring + jsstring) \<Rightarrow> Collaborators" where
  "example_collaborators net =
     \<lparr>user = Some (ascii ''user-1''), apiKey = Some (ascii ''key''),
      bake = (\<lambda>img anns. Some (img @ ascii ''+marks'')), remote = net\<rparr>"

text \<open>
  An image node without an upload (display id 1), an image node with an upload
  (display id 2) and a generator (display id 3); the generator was wired to the second
  image node first and to the first one afterwards.
\<close>

definition example_nodes :: "Node list" where
  "example_nodes =
     [image_node (ascii ''a'') 1 None,
      image_node (ascii ''b'') 2 (Some (ascii ''data:image/png;base64,BBBB'')),
      generator_node (ascii ''g'') 3 (ascii ''blend'')]"

definition example_connections :: "Connection list" where
  "example_connections =
     [\<lparr>conn_id = ascii ''c2'', sourceId = ascii ''b'', targetId = ascii ''g''\<rparr>,
      \<lparr>conn_id = ascii ''c1'', sourceId = ascii ''a'', targetId = ascii ''g''\<rparr>]"

text \<open>The same canvas after an image has been uploaded into the first image node.\<close>

definition uploaded_nodes :: "Node list" where
  "uploaded_nodes =
     updateNodeData (ascii ''a'')
       (\<lambda>d. d\<lparr>imageUrl := Some (ascii ''data:image/png;base64,AAAA''), annotations := Some []\<rparr>)
       example_nodes"

text \<open>A generator that holds a batch of results, one of them selected.\<close>

definition generator_with_batch :: "jsstring list \<Rightarrow> nat \<Rightarrow> Node" where
  "generator_with_batch imgs i =
     (let n = generator_node (ascii ''g'') 1 (ascii ''sun'')
      in n\<lparr>data := (data n)\<lparr>status := Some Success, generatedImages := Some imgs,
                             generatedImage := js_index imgs i, selectedImageIndex := Some i\<rparr>\<rparr>)"

text \<open>A generator with the layers A and B enabled and the layer C disabled.\<close>

definition three_layer_generator :: Node where
  "three_layer_generator =
     (let n = generator_node (ascii ''g'') 1 []
      in n\<lparr>data := (data n)\<lparr>layers :=
            Some [\<lparr>layer_id = ascii ''l1'', layer_name = ascii ''1'', layer_prompt = ascii ''A'', isEnabled = True\<rparr>,
                  \<lparr>layer_id = ascii ''l2'', layer_name = ascii ''2'', layer_prompt = ascii ''B'', isEnabled = True\<rparr>,
                  \<lparr>layer_id = ascii ''l3'', layer_name = ascii ''3'', layer_prompt = ascii ''C'', isEnabled = False\<rparr>]\<rparr>\<rparr>)"

text \<open>A canvas with one generator on which no call is pending.\<close>

definition idle_generator :: Pending where
  "idle_generator =
     \<lparr>canvas_nodes = [generator_node (ascii ''g'') 1 (ascii ''sun'')], waiting = [], inFlight = []\<rparr>"

text \<open>A generator asked for two images.\<close>

definition two_image_generator :: Node where
  "two_image_generator =
     (let n = generator_node (ascii ''g'') 1 (ascii ''sun'')
      in n\<lparr>data := (data n)\<lparr>numberOfImages := Some 2\<rparr>\<rparr>)"

text \<open>A network on which every request returns an image.\<close>

definition all_requests_succeed :: "nat \<Rightarrow> RequestBody \<Rightarrow> jsstring + jsstring" where
  "all_requests_succeed k body = Inr (ascii ''data:image/png;base64,OUT'')"

text \<open>A network on which the second of the parallel requests fails.\<close>

definition second_request_fails :: "nat \<Rightarrow> RequestBody \<Rightarrow> jsstring + jsstring" where
  "second_request_fails k body =
     (if k = 1 then Inl (ascii ''API Error 500: overloaded'')
      else Inr (ascii ''data:image/png;base64,OUT''))"

text \<open>An image node that holds the annotations 1 and 3.\<close>

definition annotated_node :: Node where
  "annotated_node =
     (let n = image_node (ascii ''a'') 1 (Some (ascii ''data:image/png;base64,AAAA''))
      in n\<lparr>data := (data n)\<lparr>annotations :=
            Some [\<lparr>ann_id = 1, ann_x = 10, ann_y = 10\<rparr>, \<lparr>ann_id = 3, ann_x = 30, ann_y = 40\<rparr>]\<rparr>\<rparr>)"

text \<open>A canvas at scale 2 on which the image node \<open>a\<close> is being dragged.\<close>

definition dragging_canvas :: AppState where
  "dragging_canvas =
     \<lparr>nodes = [image_node (ascii ''a'') 1 None],
      connections = [],
      scale = 2,
      offset = \<lparr>pos_x = 40, pos_y = 60\<rparr>,
      selectedNodeId = Some (ascii ''a''),
      selectedConnectionId = None,
      dragState =
        \<lparr>isDragging = True, mode = NODE, startPos = \<lparr>pos_x = 10, pos_y = 10\<rparr>,
         nodeStartPos = Some \<lparr>pos_x = 350, pos_y = 250\<rparr>,
         draggedNodeId = Some (ascii ''a''),
         connectionStartNodeId = None, connectionCurrentPos = None\<rparr>\<rparr>"

section \<open>Lemmas about the store and the helpers\<close>

lemma find_node_updateNodeData:
  "find_node (updateNodeData i f ns) j =
     map_option (\<lambda>n. if node_id n = i then n\<lparr>data := f (data n)\<rparr> else n) (find_node ns j)"
  by (induction ns) (auto simp: find_node_def updateNodeData_def)

lemma updateNodeData_compose:
  "updateNodeData i f (updateNodeData i g ns) = updateNodeData i (\<lambda>d. f (g d)) ns"
  by (simp add: updateNodeData_def)

lemma dropWhile_all: "(\<forall>c\<in>set s. P c) \<Longrightarrow> dropWhile P s = []"
  by (induction s) auto

lemma trim_empty_iff: "trim s = [] \<longleftrightarrow> (\<forall>c\<in>set s. is_whitespace c)"
proof
  assume "trim s = []"
  then have a: "\<forall>c\<in>set (dropWhile is_whitespace s). is_whitespace c"
    by (simp add: trim_def dropWhile_eq_Nil_conv)
  have "dropWhile is_whitespace s = []"
  proof (rule ccontr)
    assume ne: "dropWhile is_whitespace s \<noteq> []"
    then have "\<not> is_whitespace (hd (dropWhile is_whitespace s))" by (rule hd_dropWhile)
    moreover from ne have "hd (dropWhile is_whitespace s) \<in> set (dropWhile is_whitespace s)" by simp
    ultimately show False using a by blast
  qed
  then show "\<forall>c\<in>set s. is_whitespace c" by (simp add: dropWhile_eq_Nil_conv)
next
  assume "\<forall>c\<in>set s. is_whitespace c"
  then have d: "dropWhile is_whitespace s = []" by (rule dropWhile_all)
  show "trim s = []" unfolding trim_def d by simp
qed

lemma active_layer_iff: "(isEnabled l \<and> trim (layer_prompt l) \<noteq> []) = enabled_nonblank l"
  by (auto simp: enabled_nonblank_def trim_empty_iff)

lemma collectReferences_images:
  "collectReferences bk i srcs refs ms = Inr (refs', ms') \<Longrightarrow>
   map Some refs' = map Some refs @ map (contributed bk) (filter contributes srcs)"
proof (induction srcs arbitrary: i refs ms)
  case Nil
  then show ?case by simp
next
  case (Cons n rest)
  show ?case
  proof (cases "sourceImage n")
    case None
    with Cons.prems have "collectReferences bk (i + 1) rest refs ms = Inr (refs', ms')" by simp
    from Cons.IH [OF this] None show ?thesis by (simp add: contributes_def)
  next
    case (Some img)
    show ?thesis
    proof (cases "orEmpty (annotations (data n)) = []")
      case True
      with Cons.prems Some have
        "collectReferences bk (i + 1) rest (refs @ [img])
           (ms @ [\<lparr>note_ordinal = i + 1, note_displayId = displayId (data n), note_marked = False\<rparr>])
         = Inr (refs', ms')" by simp
      from Cons.IH [OF this] Some True show ?thesis by (simp add: contributes_def contributed_def)
    next
      case False
      with Cons.prems Some obtain baked where
        b: "bk img (orEmpty (annotations (data n))) = Some baked" and
        r: "collectReferences bk (i + 1) rest (refs @ [baked])
           (ms @ [\<lparr>note_ordinal = i + 1, note_displayId = displayId (data n), note_marked = True\<rparr>])
         = Inr (refs', ms')" by (auto split: option.splits)
      from Cons.IH [OF r] Some False b show ?thesis by (simp add: contributes_def contributed_def)
    qed
  qed
qed

lemma sorted_keys_unique:
  fixes f :: "'a \<Rightarrow> int"
  assumes "mset xs = mset ys"
  shows "map f (sort_key f xs) = map f (sort_key f ys)"
proof -
  have a: "mset (map f (sort_key f xs)) = mset (map f xs)" by simp
  have b: "mset (map f (sort_key f ys)) = mset (map f ys)" by simp
  have c: "mset (map f xs) = mset (map f ys)"
    using assms by (metis mset_map)
  have "sort (map f xs) = map f (sort_key f xs)"
    using a sorted_sort_key by (rule properties_for_sort)
  moreover have "sort (map f xs) = map f (sort_key f ys)"
    using b [unfolded c [symmetric]] sorted_sort_key by (rule properties_for_sort)
  ultimately show ?thesis by simp
qed

lemma resolveSourceNodes_mset:
  "mset (resolveSourceNodes ns cs nodeId)
   = mset (List.map_filter (\<lambda>conn. find_node ns (sourceId conn))
             (filter (\<lambda>c. targetId c = nodeId) cs))"
  by (simp add: resolveSourceNodes_def)

lemma buildOptions_images:
  assumes "buildOptions co t cp srcs = Inr opts"
  shows "map Some (orEmpty (opt_referenceImages opts)) = map (contributed (bake co)) (filter contributes srcs)"
proof -
  from assms obtain refs ms where
    c: "collectReferences (bake co) 0 srcs [] [] = Inr (refs, ms)"
    and o: "orEmpty (opt_referenceImages opts) = refs"
    by (auto simp: buildOptions_def Let_def orEmpty_def split: sum.splits if_splits prod.splits)
  from collectReferences_images [OF c] o show ?thesis by simp
qed

lemma promise_all_rejects: "\<exists>p\<in>set ps. isl p \<Longrightarrow> isl (promise_all ps)"
  by (induction ps rule: promise_all.induct) (auto split: sum.splits)

lemma generateImageWithGemini_rejects:
  assumes "k < opt_numberOfImages options" and "\<forall>body. isl (net k body)"
  shows "isl (generateImageWithGemini key net options settings)"
proof -
  have r: "isl (promise_all (map (\<lambda>j. net j (requestBody options m)) [0 ..< opt_numberOfImages options]))"
    for m
  proof (rule promise_all_rejects)
    from assms show "\<exists>p\<in>set (map (\<lambda>j. net j (requestBody options m)) [0 ..< opt_numberOfImages options]). isl p"
      by auto
  qed
  have w: "isl (case x of Inl msg \<Rightarrow> Inl (RequestFailed msg) | Inr results \<Rightarrow> Inr results)"
    if "isl x" for x :: "jsstring + jsstring list"
    using that by (cases x) auto
  show ?thesis
    by (simp add: generateImageWithGemini_def Let_def w r)
qed

lemma promise_all_values: "promise_all ps = Inr vs \<Longrightarrow> v \<in> set vs \<Longrightarrow> Inr v \<in> set ps"
proof (induction ps arbitrary: vs rule: promise_all.induct)
  case 1
  then show ?case by simp
next
  case (2 e ps)
  then show ?case by simp
next
  case (3 w ps)
  then show ?case by (auto split: sum.splits)
qed

lemma generateImageWithGemini_images:
  assumes "generateImageWithGemini key net options settings = Inr imgs" and "img \<in> set imgs"
  shows "\<exists>k body. net k body = Inr img"
proof -
  let ?m = "if modelName settings \<noteq> [] then modelName settings
            else ascii ''gemini-2.5-flash-image-preview''"
  let ?ps = "map (\<lambda>k. net k (requestBody options ?m)) [0 ..< opt_numberOfImages options]"
  from assms(1) have "promise_all ?ps = Inr imgs"
    by (simp add: generateImageWithGemini_def Let_def split: if_splits sum.splits)
  from promise_all_values [OF this assms(2)] obtain k where
    "net k (requestBody options ?m) = Inr img" by (auto simp del: requestBody_def)
  then show ?thesis by blast
qed

lemma awaitGeneration_images:
  assumes "snd (awaitGeneration co t cp srcs) = Inr imgs" and "img \<in> set imgs"
  shows "\<exists>k body. remote co k body = Inr img"
  using assms
  by (auto simp: awaitGeneration_def split: sum.splits dest: generateImageWithGemini_images)

lemma handleTriggerGeneration_batches:
  assumes r: "\<forall>k body. remote co k body \<noteq> Inr []"
    and w: "\<forall>n\<in>set ns. batch_wellformed (data n)"
  shows "\<forall>n\<in>set (fst (handleTriggerGeneration co ns cs nodeId)). batch_wellformed (data n)"
proof (cases "find_node ns nodeId")
  case None
  with w show ?thesis by (simp add: handleTriggerGeneration_def)
next
  case (Some t)
  show ?thesis
  proof (cases "compilePrompt (data t)")
    case None
    with Some w show ?thesis by (simp add: handleTriggerGeneration_def)
  next
    case (Some cp)
    let ?a = "awaitGeneration co t cp (resolveSourceNodes ns cs nodeId)"
    have res: "fst (handleTriggerGeneration co ns cs nodeId)
               = settleGeneration nodeId (snd ?a) (setLoading nodeId ns)"
      using \<open>find_node ns nodeId = Some t\<close> Some
      by (simp add: handleTriggerGeneration_def Let_def split: prod.splits)
    show ?thesis
    proof (cases "snd ?a")
      case (Inl e)
      with w show ?thesis unfolding res
        by (auto simp: settleGeneration_def setLoading_def updateNodeData_def batch_wellformed_def)
    next
      case (Inr imgs)
      have "[] \<notin> set imgs"
      proof
        assume "[] \<in> set imgs"
        from awaitGeneration_images [OF Inr this] r show False by auto
      qed
      with w Inr show ?thesis unfolding res
        by (auto simp: settleGeneration_def setLoading_def updateNodeData_def batch_wellformed_def)
    qed
  qed
qed

lemma settle_error_after_loading:
  "settleGeneration nodeId (Inl e) (setLoading nodeId ns) =
     updateNodeData nodeId
       (\<lambda>d. d\<lparr>status := Some Error, generatedImage := None, generatedImages := None\<rparr>) ns"
proof -
  have "(\<lambda>d. d\<lparr>status := Some Loading, generatedImage := None, generatedImages := None\<rparr>
             \<lparr>status := Some Error\<rparr>)
      = (\<lambda>d::NodeData. d\<lparr>status := Some Error, generatedImage := None, generatedImages := None\<rparr>)"
    by (rule ext) simp
  then show ?thesis
    by (simp only: settleGeneration_def setLoading_def updateNodeData_compose sum.case)
qed

lemma find_node_id: "find_node ns nodeId = Some n \<Longrightarrow> node_id n = nodeId"
  unfolding find_node_def by (auto dest: find_Some_iff [THEN iffD1])

lemma one_in_flight_step:
  assumes "one_in_flight nodeId s"
  shows "one_in_flight nodeId (generation_step False nodeId ev s)"
proof (cases ev)
  case (Click call)
  show ?thesis
  proof (cases "find_node (canvas_nodes s) nodeId")
    case None
    with Click assms show ?thesis by simp
  next
    case (Some node)
    show ?thesis
    proof (cases "isGenerating node \<or> compilePrompt (data node) = None")
      case True
      with Click Some assms show ?thesis by auto
    next
      case False
      with assms Some have idle: "inFlight s = []" and w: "waiting s = []"
        by (auto simp: one_in_flight_def)
      from Some have "node_id node = nodeId" by (rule find_node_id)
      with Some have "(case find_node (setLoading nodeId (canvas_nodes s)) nodeId of
                         None \<Rightarrow> False | Some n \<Rightarrow> isGenerating n)"
        by (simp add: setLoading_def find_node_updateNodeData isGenerating_def)
      with Click Some False idle w show ?thesis
        by (simp add: one_in_flight_def)
    qed
  qed
next
  case (Resume call)
  with assms show ?thesis by (simp add: one_in_flight_def)
next
  case (Settle call outcome)
  show ?thesis
  proof (cases "call \<in> set (inFlight s)")
    case False
    with Settle assms show ?thesis by simp
  next
    case True
    with assms have "length (inFlight s) = 1" by (auto simp: one_in_flight_def)
    with True have "inFlight s = [call]" by (cases "inFlight s") auto
    with Settle assms show ?thesis by (simp add: one_in_flight_def)
  qed
qed

lemma one_in_flight_run:
  "one_in_flight nodeId s \<Longrightarrow> one_in_flight nodeId (generation_run False nodeId evs s)"
proof (induction evs arbitrary: s)
  case Nil
  then show ?case by (simp add: generation_run_def)
next
  case (Cons ev evs)
  from Cons.prems have "one_in_flight nodeId (generation_step False nodeId ev s)"
    by (rule one_in_flight_step)
  from Cons.IH [OF this] show ?case by (simp add: generation_run_def)
qed

lemma handleTriggerGeneration_sent:
  assumes "find_node ns nodeId = Some t"
    and "compilePrompt (data t) = Some cp"
    and "buildOptions co t cp (resolveSourceNodes ns cs nodeId) = Inr options"
  shows "snd (handleTriggerGeneration co ns cs nodeId) = Some options"
  using assms by (simp add: handleTriggerGeneration_def awaitGeneration_def)

section \<open>Evaluation of the example canvases\<close>

lemma example_sources:
  "resolveSourceNodes example_nodes example_connections (ascii ''g'')
   = [image_node (ascii ''a'') 1 None,
      image_node (ascii ''b'') 2 (Some (ascii ''data:image/png;base64,BBBB''))]"
  by (simp add: resolveSourceNodes_def example_nodes_def example_connections_def find_node_def
      image_node_def generator_node_def newNode_def ascii_def Let_def)

lemma example_references:
  "collectReferences bk 0
     [image_node (ascii ''a'') 1 None,
      image_node (ascii ''b'') 2 (Some (ascii ''data:image/png;base64,BBBB''))] [] []
   = Inr ([ascii ''data:image/png;base64,BBBB''],
          [\<lparr>note_ordinal = 2, note_displayId = 2, note_marked = False\<rparr>])"
  by (simp add: sourceImage_def image_node_def newNode_def orEmpty_def ascii_def Let_def numeral_2_eq_2)

lemma example_target:
  "find_node example_nodes (ascii ''g'') = Some (generator_node (ascii ''g'') 3 (ascii ''blend''))"
  by (simp add: example_nodes_def find_node_def image_node_def generator_node_def newNode_def ascii_def Let_def)

lemma example_compiled:
  "compilePrompt (data (generator_node (ascii ''g'') 3 (ascii ''blend''))) = Some (ascii ''blend'')"
  by (simp add: compilePrompt_def generator_node_def newNode_def orEmpty_def trim_def
      is_whitespace_def ascii_def Let_def)

lemma example_options:
  "buildOptions (example_collaborators net) (generator_node (ascii ''g'') 3 (ascii ''blend''))
     (ascii ''blend'')
     [image_node (ascii ''a'') 1 None,
      image_node (ascii ''b'') 2 (Some (ascii ''data:image/png;base64,BBBB''))]
   = Inr \<lparr>opt_prompt = finalPrompt (ascii ''blend'')
                         [\<lparr>note_ordinal = 2, note_displayId = 2, note_marked = False\<rparr>],
           opt_referenceImages = Some [ascii ''data:image/png;base64,BBBB''],
           opt_aspectRatio = Some R1_1, opt_imageResolution = Some Res1K,
           opt_numberOfImages = 1\<rparr>"
  by (simp only: buildOptions_def example_references)
     (simp add: example_collaborators_def generator_node_def newNode_def Let_def)

lemma two_image_options:
  "buildOptions (example_collaborators net) two_image_generator (ascii ''sun'') []
   = Inr \<lparr>opt_prompt = ascii ''sun'', opt_referenceImages = None,
           opt_aspectRatio = Some R1_1, opt_imageResolution = Some Res1K,
           opt_numberOfImages = 2\<rparr>"
  by (simp add: buildOptions_def finalPrompt_def example_collaborators_def two_image_generator_def
      generator_node_def newNode_def Let_def)

lemma uploaded_sources:
  "resolveSourceNodes uploaded_nodes cs (ascii ''g'')
   = sort_key (\<lambda>n. displayId (data n))
       (List.map_filter (\<lambda>conn. find_node uploaded_nodes (sourceId conn))
          (filter (\<lambda>c. targetId c = ascii ''g'') cs))"
  by (simp add: resolveSourceNodes_def)

lemma uploaded_find:
  "find_node uploaded_nodes (ascii ''a'') = Some (image_node (ascii ''a'') 1 (Some (ascii ''data:image/png;base64,AAAA'')))"
  "find_node uploaded_nodes (ascii ''b'') = Some (image_node (ascii ''b'') 2 (Some (ascii ''data:image/png;base64,BBBB'')))"
  by (simp_all add: uploaded_nodes_def example_nodes_def updateNodeData_def find_node_def
      image_node_def generator_node_def newNode_def ascii_def Let_def)

lemma uploaded_sources_example:
  "resolveSourceNodes uploaded_nodes example_connections (ascii ''g'')
   = [image_node (ascii ''a'') 1 (Some (ascii ''data:image/png;base64,AAAA'')),
      image_node (ascii ''b'') 2 (Some (ascii ''data:image/png;base64,BBBB''))]"
  "resolveSourceNodes uploaded_nodes (rev example_connections) (ascii ''g'')
   = [image_node (ascii ''a'') 1 (Some (ascii ''data:image/png;base64,AAAA'')),
      image_node (ascii ''b'') 2 (Some (ascii ''data:image/png;base64,BBBB''))]"
  by (simp_all add: uploaded_sources example_connections_def uploaded_find)
     (simp_all add: image_node_def newNode_def Let_def)

lemma uploaded_references:
  "collectReferences bk 0
     [image_node (ascii ''a'') 1 (Some (ascii ''data:image/png;base64,AAAA'')),
      image_node (ascii ''b'') 2 (Some (ascii ''data:image/png;base64,BBBB''))] [] []
   = Inr ([ascii ''data:image/png;base64,AAAA'', ascii ''data:image/png;base64,BBBB''],
          [\<lparr>note_ordinal = 1, note_displayId = 1, note_marked = False\<rparr>,
           \<lparr>note_ordinal = 2, note_displayId = 2, note_marked = False\<rparr>])"
  by (simp add: sourceImage_def image_node_def newNode_def orEmpty_def ascii_def Let_def numeral_2_eq_2)

lemma uploaded_options:
  "buildOptions (example_collaborators net) (generator_node (ascii ''g'') 3 (ascii ''blend''))
     (ascii ''blend'')
     [image_node (ascii ''a'') 1 (Some (ascii ''data:image/png;base64,AAAA'')),
      image_node (ascii ''b'') 2 (Some (ascii ''data:image/png;base64,BBBB''))]
   = Inr \<lparr>opt_prompt = finalPrompt (ascii ''blend'')
                         [\<lparr>note_ordinal = 1, note_displayId = 1, note_marked = False\<rparr>,
                          \<lparr>note_ordinal = 2, note_displayId = 2, note_marked = False\<rparr>],
           opt_referenceImages = Some [ascii ''data:image/png;base64,AAAA'', ascii ''data:image/png;base64,BBBB''],
           opt_aspectRatio = Some R1_1, opt_imageResolution = Some Res1K,
           opt_numberOfImages = 1\<rparr>"
  by (simp only: buildOptions_def uploaded_references)
     (simp add: example_collaborators_def generator_node_def newNode_def Let_def)

lemma idle_generator_compiles:
  "compilePrompt (data (generator_node (ascii ''g'') 1 (ascii ''sun''))) = Some (ascii ''sun'')"
  by (simp add: compilePrompt_def generator_node_def newNode_def orEmpty_def trim_def
      is_whitespace_def ascii_def Let_def)

lemma idle_generator_find:
  "find_node [generator_node (ascii ''g'') 1 (ascii ''sun'')] (ascii ''g'')
   = Some (generator_node (ascii ''g'') 1 (ascii ''sun''))"
  by (simp add: find_node_def generator_node_def newNode_def Let_def)

lemma idle_generator_fields:
  "node_id (generator_node (ascii ''g'') 1 (ascii ''sun'')) = ascii ''g''"
  "status (data (generator_node (ascii ''g'') 1 (ascii ''sun''))) = None"
  by (simp_all add: generator_node_def newNode_def Let_def)

lemmas run_simps = generation_run_def idle_generator_def idle_generator_find idle_generator_fields
  idle_generator_compiles setLoading_def settleGeneration_def find_node_updateNodeData
  isGenerating_def js_index_def

section \<open>Coordinate transforms\<close>

text \<open>
  C7. \<open>screenToWorld\<close> inverts the rendering transform: for every world point, pan
  offset, canvas rectangle and scale in [0.1, 3], converting the screen position at
  which the world point is painted gives the world point back (exactly, over the
  rationals).
\<close>

theorem screenToWorld_inverse:
  assumes "1 / 10 \<le> k" and "k \<le> 3"
  shows "screenToWorld (Some rect) off k
           (pos_x (contentTransform rect off k p)) (pos_y (contentTransform rect off k p)) = p"
proof -
  from assms have "k \<noteq> 0" by auto
  then show ?thesis
    by (simp add: screenToWorld_def contentTransform_def)
qed

text \<open>
  The transform at scale 2, pan offset (30, -20) and canvas corner (100, 50), on the
  world point (7, 11).
\<close>

theorem screenToWorld_inverse_witness:
  "(1::rat) / 10 \<le> 2 \<and> (2::rat) \<le> 3 \<and>
   screenToWorld (Some example_rect) \<lparr>pos_x = 30, pos_y = - 20\<rparr> 2
     (pos_x (contentTransform example_rect \<lparr>pos_x = 30, pos_y = - 20\<rparr> 2 \<lparr>pos_x = 7, pos_y = 11\<rparr>))
     (pos_y (contentTransform example_rect \<lparr>pos_x = 30, pos_y = - 20\<rparr> 2 \<lparr>pos_x = 7, pos_y = 11\<rparr>))
   = \<lparr>pos_x = 7, pos_y = 11\<rparr>"
  using screenToWorld_inverse [of 2 example_rect "\<lparr>pos_x = 30, pos_y = - 20\<rparr>" "\<lparr>pos_x = 7, pos_y = 11\<rparr>"]
  by simp

section \<open>Dragging and zooming\<close>

text \<open>
  C8. While a node is dragged (mode \<open>NODE\<close>, start position \<open>p0\<close> recorded, pointer
  start \<open>startPos\<close>), a pointer move to \<open>(clientX, clientY)\<close> at view scale \<open>k\<close> puts
  the dragged node at \<open>p0 + (client - startPos) / k\<close> componentwise and leaves the other
  nodes alone, whatever the pan offset is.
\<close>

theorem drag_node_position:
  assumes "isDragging (dragState s)" and "mode (dragState s) = NODE"
    and "draggedNodeId (dragState s) = Some nid" and "nid \<noteq> []"
    and "nodeStartPos (dragState s) = Some p0"
  shows "nodes (handleMouseMove canvas clientX clientY (s\<lparr>offset := pan\<rparr>)) =
           map (\<lambda>n. if node_id n = nid
                     then n\<lparr>position :=
                             \<lparr>pos_x = pos_x p0 + (clientX - pos_x (startPos (dragState s))) / scale s,
                              pos_y = pos_y p0 + (clientY - pos_y (startPos (dragState s))) / scale s\<rparr>\<rparr>
                     else n) (nodes s)"
  using assms by (simp add: handleMouseMove_def Let_def)

text \<open>
  At scale 2 a pointer move by (20, 40) moves the node from (350, 250) to (360, 270),
  with another pan offset than the one of the canvas.
\<close>

theorem drag_node_position_witness:
  "isDragging (dragState dragging_canvas) \<and> mode (dragState dragging_canvas) = NODE
   \<and> draggedNodeId (dragState dragging_canvas) = Some (ascii ''a'') \<and> ascii ''a'' \<noteq> []
   \<and> nodeStartPos (dragState dragging_canvas) = Some \<lparr>pos_x = 350, pos_y = 250\<rparr>
   \<and> map position (nodes (handleMouseMove None 30 50 (dragging_canvas\<lparr>offset := \<lparr>pos_x = 7, pos_y = 9\<rparr>\<rparr>)))
       = [\<lparr>pos_x = 360, pos_y = 270\<rparr>]"
  using drag_node_position [of dragging_canvas "ascii ''a''" "\<lparr>pos_x = 350, pos_y = 250\<rparr>" None 30 50
      "\<lparr>pos_x = 7, pos_y = 9\<rparr>"]
  by (simp add: dragging_canvas_def image_node_def newNode_def ascii_def Let_def)

text \<open>
  C10. The wheel handler changes the scale only, to the old scale minus a thousandth
  of \<open>deltaY\<close> clamped into [0.1, 3]; pan offset, nodes and connections are unchanged.
  The zoom is not anchored at the cursor: when the scale changes, the world point under
  a cursor that is not at the content origin changes.
\<close>

theorem wheel_changes_only_scale:
  "handleWheel deltaY s = s\<lparr>scale := min (max (scale s - deltaY / 1000) (1 / 10)) 3\<rparr>
   \<and> 1 / 10 \<le> scale (handleWheel deltaY s) \<and> scale (handleWheel deltaY s) \<le> 3
   \<and> offset (handleWheel deltaY s) = offset s
   \<and> nodes (handleWheel deltaY s) = nodes s
   \<and> connections (handleWheel deltaY s) = connections s
   \<and> (1 / 10 \<le> scale s \<and> scale (handleWheel deltaY s) \<noteq> scale s
        \<and> (screenX, screenY) \<noteq> (rect_left rect + pos_x (offset s), rect_top rect + pos_y (offset s))
      \<longrightarrow> screenToWorld (Some rect) (offset (handleWheel deltaY s))
                    (scale (handleWheel deltaY s)) screenX screenY
           \<noteq> screenToWorld (Some rect) (offset s) (scale s) screenX screenY)"
proof -
  let ?k' = "scale (handleWheel deltaY s)"
  have k': "?k' = min (max (scale s - deltaY / 1000) (1 / 10)) 3"
    by (simp add: handleWheel_def)
  have lo: "1 / 10 \<le> ?k'" and hi: "?k' \<le> 3" unfolding k' by auto
  have off: "offset (handleWheel deltaY s) = offset s" by (simp add: handleWheel_def)
  have ratio: "a / ?k' \<noteq> a / scale s"
    if a: "1 / 10 \<le> scale s" and b: "?k' \<noteq> scale s" and a0: "a \<noteq> 0" for a :: rat
  proof
    from a have k0: "scale s \<noteq> 0" by auto
    from lo have k'0: "?k' \<noteq> 0" by auto
    assume "a / ?k' = a / scale s"
    then have "a * scale s = a * ?k'" using k0 k'0 by (auto simp: frac_eq_eq)
    then have "scale s = ?k'" using a0 by simp
    with b show False by simp
  qed
  have anchor: "screenToWorld (Some rect) (offset (handleWheel deltaY s)) ?k' screenX screenY
           \<noteq> screenToWorld (Some rect) (offset s) (scale s) screenX screenY"
    if a: "1 / 10 \<le> scale s" and b: "?k' \<noteq> scale s"
      and c: "(screenX, screenY) \<noteq> (rect_left rect + pos_x (offset s), rect_top rect + pos_y (offset s))"
  proof -
    from c consider "screenX - rect_left rect - pos_x (offset s) \<noteq> 0"
      | "screenY - rect_top rect - pos_y (offset s) \<noteq> 0" by auto
    then show ?thesis
    proof cases
      case 1
      from ratio [OF a b 1] show ?thesis by (simp add: screenToWorld_def off)
    next
      case 2
      from ratio [OF a b 2] show ?thesis by (simp add: screenToWorld_def off)
    qed
  qed
  show ?thesis using lo hi anchor by (simp add: handleWheel_def)
qed

text \<open>
  A wheel turn by 500 at scale 2 gives scale 3/2; the world point under the cursor at
  (300, 200) moves from (80, 45) to (320/3, 60).
\<close>

theorem wheel_changes_only_scale_witness:
  "1 / 10 \<le> scale dragging_canvas
   \<and> scale (handleWheel 500 dragging_canvas) = 3 / 2
   \<and> scale (handleWheel 500 dragging_canvas) \<noteq> scale dragging_canvas
   \<and> offset (handleWheel 500 dragging_canvas) = offset dragging_canvas
   \<and> nodes (handleWheel 500 dragging_canvas) = nodes dragging_canvas
   \<and> (300, 200) \<noteq> (rect_left example_rect + pos_x (offset dragging_canvas),
                      rect_top example_rect + pos_y (offset dragging_canvas))
   \<and> screenToWorld (Some example_rect) (offset dragging_canvas) (scale dragging_canvas) 300 200
       = \<lparr>pos_x = 80, pos_y = 45\<rparr>
   \<and> screenToWorld (Some example_rect) (offset (handleWheel 500 dragging_canvas))
              (scale (handleWheel 500 dragging_canvas)) 300 200
       = \<lparr>pos_x = 320 / 3, pos_y = 60\<rparr>"
  using wheel_changes_only_scale [of 500 dragging_canvas 300 200 example_rect]
  by (simp add: dragging_canvas_def example_rect_def handleWheel_def screenToWorld_def)

section \<open>Annotation ids\<close>

text \<open>
  C3, as the code has it. A click in annotate mode on a node with an image appends one
  annotation whose id is the greatest id the node holds at that moment plus one, hence
  greater than every id it holds, and is 1 when it holds none. The id is computed from
  the annotations present, not from a counter, so nothing is said about ids that were
  removed before.
\<close>

theorem new_annotation_id_exceeds_present:
  assumes "find_node ns (node_id node) = Some node"
    and "truthy (imageUrl (data node))"
  shows "\<exists>newId.
           map_option (\<lambda>n. annotations (data n))
             (find_node (handleImageClick True (Some rect) clientX clientY node ns) (node_id node))
           = Some (Some (orEmpty (annotations (data node))
                         @ [\<lparr>ann_id = newId,
                             ann_x = ((clientX - rect_left rect) / rect_width rect) * 100,
                             ann_y = ((clientY - rect_top rect) / rect_height rect) * 100\<rparr>]))
         \<and> (\<forall>a\<in>set (orEmpty (annotations (data node))). ann_id a < newId)
         \<and> (orEmpty (annotations (data node)) = [] \<longrightarrow> newId = 1)
         \<and> (orEmpty (annotations (data node)) \<noteq> []
              \<longrightarrow> newId = Max (ann_id ` set (orEmpty (annotations (data node)))) + 1)
         \<and> (map ann_id (orEmpty (annotations (data node))) = [1, 3] \<longrightarrow> newId = 4)"
proof -
  let ?cur = "orEmpty (annotations (data node))"
  let ?newId = "if length ?cur > 0 then Max (set (map ann_id ?cur)) + 1 else 1"
  have gt: "\<forall>a\<in>set ?cur. ann_id a < ?newId"
  proof
    fix a assume a: "a \<in> set ?cur"
    then have "ann_id a \<le> Max (set (map ann_id ?cur))" by (intro Max_ge) auto
    moreover from a have "length ?cur > 0" by (cases ?cur) auto
    ultimately show "ann_id a < ?newId" by simp
  qed
  have mx: "?cur \<noteq> [] \<longrightarrow> ?newId = Max (ann_id ` set ?cur) + 1"
    by simp
  have ex: "map ann_id ?cur = [1, 3] \<longrightarrow> ?newId = 4"
  proof
    assume h: "map ann_id ?cur = [1, 3]"
    then have "length ?cur > 0" by (cases ?cur) auto
    then show "?newId = 4" by (simp add: h)
  qed
  show ?thesis
    apply (rule exI [of _ ?newId])
    using assms gt ex mx
    by (simp add: handleImageClick_def find_node_updateNodeData Let_def)
qed

text \<open>
  A node that holds the ids 1 and 3 (the state after 1, 2, 3 with 2 removed) gets 4.
\<close>

theorem new_annotation_id_exceeds_present_witness:
  "find_node [annotated_node] (node_id annotated_node) = Some annotated_node
   \<and> truthy (imageUrl (data annotated_node))
   \<and> annotation_ids [annotated_node] (ascii ''a'') = [1, 3]
   \<and> annotation_ids (handleImageClick True (Some example_rect) 300 150 annotated_node [annotated_node])
        (ascii ''a'') = [1, 3, 4]"
  using new_annotation_id_exceeds_present [of "[annotated_node]" annotated_node example_rect 300 150]
  by (simp add: annotated_node_def image_node_def newNode_def ascii_def Let_def find_node_def
      annotation_ids_def handleImageClick_def updateNodeData_def orEmpty_def example_rect_def)

text \<open>
  C3 as stated fails: after one annotation (id 1) and a clear, the next annotation gets
  the id 1 again.
\<close>

theorem annotation_id_reused_after_clear:
  "annotation_ids
     (annotate example_rect (ascii ''a'') [ImageClick 120 60]
        [image_node (ascii ''a'') 1 (Some (ascii ''data:x''))]) (ascii ''a'') = [1]
   \<and> annotation_ids
     (annotate example_rect (ascii ''a'') [ImageClick 120 60, ClearAnnotations, ImageClick 130 70]
        [image_node (ascii ''a'') 1 (Some (ascii ''data:x''))]) (ascii ''a'') = [1]"
  by (simp add: annotation_ids_def find_node_def image_node_def newNode_def ascii_def
      handleImageClick_def handleClearAnnotations_def updateNodeData_def orEmpty_def example_rect_def Let_def)

section \<open>Selecting a generated image\<close>

text \<open>
  C9. On a generator whose batch is well formed, selecting index \<open>i\<close> changes nothing
  when the node has no batch or the batch has no element at \<open>i\<close>; otherwise it sets the
  selected index to \<open>i\<close> and the active image to the element at \<open>i\<close>. After such
  a selection, and after a successful generation (index 0, first image), the active
  image is the element of the batch at the selected index.
\<close>

theorem select_generated_image:
  assumes "find_node ns (node_id node) = Some node"
    and "batch_wellformed (data node)"
  shows "(generatedImages (data node) = None \<longrightarrow> handleSelectGeneratedImage index node ns = ns)
       \<and> (\<forall>imgs. generatedImages (data node) = Some imgs \<and> js_index imgs index = None
             \<longrightarrow> handleSelectGeneratedImage index node ns = ns)
       \<and> (\<forall>imgs img. generatedImages (data node) = Some imgs \<and> js_index imgs index = Some img
             \<longrightarrow> find_node (handleSelectGeneratedImage index node ns) (node_id node)
                   = Some (node\<lparr>data := (data node)\<lparr>selectedImageIndex := Some index,
                                                      generatedImage := Some img\<rparr>\<rparr>)
                 \<and> selection_consistent
                     ((data node)\<lparr>selectedImageIndex := Some index, generatedImage := Some img\<rparr>))
       \<and> (\<forall>resultImages.
             find_node (settleGeneration (node_id node) (Inr resultImages) ns) (node_id node)
               = Some (node\<lparr>data := (data node)\<lparr>status := Some Success,
                                                  generatedImages := Some resultImages,
                                                  generatedImage := js_index resultImages 0,
                                                  selectedImageIndex := Some 0\<rparr>\<rparr>)
             \<and> selection_consistent
                 ((data node)\<lparr>status := Some Success, generatedImages := Some resultImages,
                               generatedImage := js_index resultImages 0,
                               selectedImageIndex := Some 0\<rparr>))"
proof -
  have ne: "img \<noteq> []" if "generatedImages (data node) = Some imgs" "js_index imgs index = Some img"
    for imgs img
  proof -
    from that(2) have "img \<in> set imgs" by (auto simp: js_index_def split: if_splits)
    with assms(2) that(1) show ?thesis by (auto simp: batch_wellformed_def)
  qed
  show ?thesis
    using assms(1) ne
    by (auto simp: handleSelectGeneratedImage_def settleGeneration_def find_node_updateNodeData
        selection_consistent_def)
qed

text \<open>
  In a batch of two, index 2 is ignored and index 1 is selected.
\<close>

theorem select_generated_image_witness:
  "find_node [generator_with_batch [ascii ''data:1'', ascii ''data:2''] 0]
     (node_id (generator_with_batch [ascii ''data:1'', ascii ''data:2''] 0))
   = Some (generator_with_batch [ascii ''data:1'', ascii ''data:2''] 0)
   \<and> batch_wellformed (data (generator_with_batch [ascii ''data:1'', ascii ''data:2''] 0))
   \<and> handleSelectGeneratedImage 2 (generator_with_batch [ascii ''data:1'', ascii ''data:2''] 0)
       [generator_with_batch [ascii ''data:1'', ascii ''data:2''] 0]
     = [generator_with_batch [ascii ''data:1'', ascii ''data:2''] 0]
   \<and> handleSelectGeneratedImage 1 (generator_with_batch [ascii ''data:1'', ascii ''data:2''] 0)
       [generator_with_batch [ascii ''data:1'', ascii ''data:2''] 0]
     = [generator_with_batch [ascii ''data:1'', ascii ''data:2''] 1]"
  using select_generated_image [of "[generator_with_batch [ascii ''data:1'', ascii ''data:2''] 0]"
      "generator_with_batch [ascii ''data:1'', ascii ''data:2''] 0" 1]
  by (simp add: generator_with_batch_def generator_node_def newNode_def ascii_def Let_def
      find_node_def handleSelectGeneratedImage_def updateNodeData_def js_index_def
      batch_wellformed_def)

section \<open>Compiled prompt\<close>

text \<open>
  C5, as the code has it. The compiled prompt is the join by line feeds, in list order,
  of the prompts of the layers that are enabled and whose prompt has a character that
  is not white space; if there is no such layer it is the legacy prompt field; if that
  is absent or empty too, the trigger returns at once: no node changes and no request is
  sent.
\<close>

theorem compiled_prompt_of_layers:
  assumes "find_node ns nodeId = Some t"
  shows "(filter enabled_nonblank (orEmpty (layers (data t))) \<noteq> []
          \<longrightarrow> compilePrompt (data t)
              = Some (js_join [10] (map layer_prompt (filter enabled_nonblank (orEmpty (layers (data t)))))))
       \<and> (filter enabled_nonblank (orEmpty (layers (data t))) = [] \<and> truthy (prompt (data t))
          \<longrightarrow> compilePrompt (data t) = prompt (data t))
       \<and> (filter enabled_nonblank (orEmpty (layers (data t))) = [] \<and> \<not> truthy (prompt (data t))
          \<longrightarrow> handleTriggerGeneration co ns cs nodeId = (ns, None))"
proof -
  have f: "filter (\<lambda>l. isEnabled l \<and> trim (layer_prompt l) \<noteq> []) (orEmpty (layers (data t)))
           = filter enabled_nonblank (orEmpty (layers (data t)))"
    by (simp add: active_layer_iff)
  show ?thesis
    using assms
    by (cases "prompt (data t)") (auto simp: compilePrompt_def handleTriggerGeneration_def f Let_def)
qed

text \<open>
  Layers A and B enabled, layer C disabled: the compiled prompt is A, line feed, B.
\<close>

theorem compiled_prompt_of_layers_witness:
  "find_node [three_layer_generator] (ascii ''g'') = Some three_layer_generator
   \<and> map layer_prompt (filter enabled_nonblank (orEmpty (layers (data three_layer_generator))))
       = [ascii ''A'', ascii ''B'']
   \<and> compilePrompt (data three_layer_generator) = Some (ascii ''A'' @ [10] @ ascii ''B'')"
  using compiled_prompt_of_layers [of "[three_layer_generator]" "ascii ''g''" three_layer_generator]
  by (simp add: three_layer_generator_def generator_node_def newNode_def ascii_def Let_def
      find_node_def orEmpty_def enabled_nonblank_def is_whitespace_def)

text \<open>
  C5 as stated fails: an enabled layer whose prompt is one space has a non-empty
  prompt, yet it is not compiled; with an empty legacy prompt nothing is compiled.
\<close>

theorem blank_layer_not_compiled:
  "map layer_prompt
     (filter enabled_nonempty (orEmpty (layers (data (generator_node (ascii ''g'') 1 [32])))))
   = [[32]]
   \<and> compilePrompt (data (generator_node (ascii ''g'') 1 [32])) = None"
  by (simp add: generator_node_def newNode_def Let_def orEmpty_def enabled_nonempty_def
      compilePrompt_def trim_def is_whitespace_def)

section \<open>Order of the reference images\<close>

text \<open>
  C6. The resolved source nodes are the nodes found for the sources of the incoming
  connections of the generator, each as often as it is connected, in ascending order
  of display id; the sequence of display ids is the same for every order of the
  connection list; and the reference images of a request are the images contributed
  by the source nodes that carry one, in that ascending order.
\<close>

theorem reference_order_by_displayId:
  "sorted (map (\<lambda>n. displayId (data n)) (resolveSourceNodes ns cs nodeId))
   \<and> mset (resolveSourceNodes ns cs nodeId)
       = mset (List.map_filter (\<lambda>conn. find_node ns (sourceId conn))
                 (filter (\<lambda>c. targetId c = nodeId) cs))
   \<and> (mset cs' = mset cs \<longrightarrow>
        map (\<lambda>n. displayId (data n)) (resolveSourceNodes ns cs' nodeId)
        = map (\<lambda>n. displayId (data n)) (resolveSourceNodes ns cs nodeId))
   \<and> (buildOptions co t cp (resolveSourceNodes ns cs nodeId) = Inr opts \<longrightarrow>
        map Some (orEmpty (opt_referenceImages opts))
          = map (contributed (bake co)) (filter contributes (resolveSourceNodes ns cs nodeId))
        \<and> sorted (map (\<lambda>n. displayId (data n)) (filter contributes (resolveSourceNodes ns cs nodeId))))"
proof -
  let ?f = "\<lambda>n. displayId (data n)"
  have s: "sorted (map ?f (resolveSourceNodes ns cs nodeId))"
    by (simp add: resolveSourceNodes_def)
  have p: "map ?f (resolveSourceNodes ns cs' nodeId) = map ?f (resolveSourceNodes ns cs nodeId)"
    if "mset cs' = mset cs"
  proof -
    have "mset (List.map_filter (\<lambda>conn. find_node ns (sourceId conn)) (filter (\<lambda>c. targetId c = nodeId) cs'))
        = mset (List.map_filter (\<lambda>conn. find_node ns (sourceId conn)) (filter (\<lambda>c. targetId c = nodeId) cs))"
      using that by (simp add: map_filter_def)
    then show ?thesis
      unfolding resolveSourceNodes_def Let_def by (rule sorted_keys_unique)
  qed
  have f: "sorted (map ?f (filter contributes (resolveSourceNodes ns cs nodeId)))"
    using s by (simp add: sorted_filter)
  show ?thesis using s p f buildOptions_images resolveSourceNodes_mset by blast
qed

text \<open>
  The generator was wired to node 2 first and node 1 second; the sources and the
  reference images come out in the order 1, 2, also for the reversed connection list.
\<close>

theorem reference_order_by_displayId_witness:
  "map sourceId example_connections = [ascii ''b'', ascii ''a'']
   \<and> map node_id (resolveSourceNodes uploaded_nodes example_connections (ascii ''g''))
       = [ascii ''a'', ascii ''b'']
   \<and> mset (rev example_connections) = mset example_connections
   \<and> map (\<lambda>n. displayId (data n)) (resolveSourceNodes uploaded_nodes example_connections (ascii ''g'')) = [1, 2]
   \<and> map (\<lambda>n. displayId (data n)) (resolveSourceNodes uploaded_nodes (rev example_connections) (ascii ''g'')) = [1, 2]
   \<and> map (contributed (bake (example_collaborators all_requests_succeed)))
        (filter contributes (resolveSourceNodes uploaded_nodes example_connections (ascii ''g'')))
      = [Some (ascii ''data:image/png;base64,AAAA''), Some (ascii ''data:image/png;base64,BBBB'')]"
proof -
  have b: "buildOptions (example_collaborators all_requests_succeed)
             (generator_node (ascii ''g'') 3 (ascii ''blend'')) (ascii ''blend'')
             (resolveSourceNodes uploaded_nodes example_connections (ascii ''g''))
           = Inr \<lparr>opt_prompt = finalPrompt (ascii ''blend'')
                         [\<lparr>note_ordinal = 1, note_displayId = 1, note_marked = False\<rparr>,
                          \<lparr>note_ordinal = 2, note_displayId = 2, note_marked = False\<rparr>],
           opt_referenceImages = Some [ascii ''data:image/png;base64,AAAA'', ascii ''data:image/png;base64,BBBB''],
           opt_aspectRatio = Some R1_1, opt_imageResolution = Some Res1K,
           opt_numberOfImages = 1\<rparr>"
    unfolding uploaded_sources_example by (rule uploaded_options)
  have m: "mset (rev example_connections) = mset example_connections" by simp
  have c: "map sourceId example_connections = [ascii ''b'', ascii ''a'']"
    by (simp add: example_connections_def)
  have d: "map (\<lambda>n. displayId (data n)) (resolveSourceNodes uploaded_nodes example_connections (ascii ''g'')) = [1, 2]"
    unfolding uploaded_sources_example by (simp add: image_node_def newNode_def Let_def)
  have e: "map node_id (resolveSourceNodes uploaded_nodes example_connections (ascii ''g''))
           = [ascii ''a'', ascii ''b'']"
    unfolding uploaded_sources_example by (simp add: image_node_def newNode_def Let_def)
  from reference_order_by_displayId [of uploaded_nodes example_connections "ascii ''g''"
      "rev example_connections" "example_collaborators all_requests_succeed"
      "generator_node (ascii ''g'') 3 (ascii ''blend'')" "ascii ''blend''"
      "\<lparr>opt_prompt = finalPrompt (ascii ''blend'')
                         [\<lparr>note_ordinal = 1, note_displayId = 1, note_marked = False\<rparr>,
                          \<lparr>note_ordinal = 2, note_displayId = 2, note_marked = False\<rparr>],
           opt_referenceImages = Some [ascii ''data:image/png;base64,AAAA'', ascii ''data:image/png;base64,BBBB''],
           opt_aspectRatio = Some R1_1, opt_imageResolution = Some Res1K,
           opt_numberOfImages = 1\<rparr>"] b m c d e
  show ?thesis by (simp add: orEmpty_def)
qed

text \<open>
  C1 fails on the code. The ordinal written into a note is the loop index over all
  source nodes plus one, also over those skipped for want of an image. With source
  node 1 carrying no image and source node 2 carrying one, the request holds one
  reference image and the note calls it the second image (the ordinal in the rendered
  note is the digit 2); the reference list has no element at index 1.
\<close>

theorem note_ordinal_counts_skipped_nodes:
  "snd (handleTriggerGeneration (example_collaborators all_requests_succeed)
          example_nodes example_connections (ascii ''g''))
   = Some \<lparr>opt_prompt = finalPrompt (ascii ''blend'')
                          [\<lparr>note_ordinal = 2, note_displayId = 2, note_marked = False\<rparr>],
            opt_referenceImages = Some [ascii ''data:image/png;base64,BBBB''],
            opt_aspectRatio = Some R1_1, opt_imageResolution = Some Res1K,
            opt_numberOfImages = 1\<rparr>
   \<and> js_index [ascii ''data:image/png;base64,BBBB''] (2 - 1) = None
   \<and> render_note \<lparr>note_ordinal = 2, note_displayId = 2, note_marked = False\<rparr>
       = [31532, 32, 50, 32, 24352, 22270, 29255, 23545, 24212, 32, 91, 22270, 50, 93]"
proof -
  have "buildOptions (example_collaborators all_requests_succeed)
          (generator_node (ascii ''g'') 3 (ascii ''blend'')) (ascii ''blend'')
          (resolveSourceNodes example_nodes example_connections (ascii ''g''))
        = Inr \<lparr>opt_prompt = finalPrompt (ascii ''blend'')
                         [\<lparr>note_ordinal = 2, note_displayId = 2, note_marked = False\<rparr>],
           opt_referenceImages = Some [ascii ''data:image/png;base64,BBBB''],
           opt_aspectRatio = Some R1_1, opt_imageResolution = Some Res1K,
           opt_numberOfImages = 1\<rparr>"
    unfolding example_sources by (rule example_options)
  from handleTriggerGeneration_sent [OF example_target example_compiled this]
  show ?thesis by (simp add: js_index_def render_note_def show_nat.simps show_int_def)
qed

section \<open>Outcome of a generation\<close>

text \<open>
  C4. When the request is issued for \<open>N\<close> images and one of the \<open>N\<close> parallel calls
  fails, the trigger ends with the target node in status error, without active image
  and without result images, and with every other field of its data (model, aspect
  ratio, resolution, requested count, layers) and every other node as before.
\<close>

theorem partial_failure_fails_trigger:
  assumes "find_node ns nodeId = Some t"
    and "compilePrompt (data t) = Some cp"
    and "buildOptions co t cp (resolveSourceNodes ns cs nodeId) = Inr options"
    and "k < opt_numberOfImages options"
    and "\<forall>body. isl (remote co k body)"
  shows "fst (handleTriggerGeneration co ns cs nodeId) =
           updateNodeData nodeId
             (\<lambda>d. d\<lparr>status := Some Error, generatedImage := None, generatedImages := None\<rparr>) ns
       \<and> find_node (fst (handleTriggerGeneration co ns cs nodeId)) nodeId =
           Some (t\<lparr>data := (data t)\<lparr>status := Some Error, generatedImage := None,
                                     generatedImages := None\<rparr>\<rparr>)"
proof -
  let ?settings = "systemSettings\<lparr>modelName :=
                (if truthy (model (data t)) then the (model (data t))
                 else modelName systemSettings)\<rparr>"
  have "isl (generateImageWithGemini (apiKey co) (remote co) options ?settings)"
    using assms(4,5) by (rule generateImageWithGemini_rejects)
  then obtain e where e: "generateImageWithGemini (apiKey co) (remote co) options ?settings = Inl e"
    by (cases "generateImageWithGemini (apiKey co) (remote co) options ?settings") auto
  have a: "awaitGeneration co t cp (resolveSourceNodes ns cs nodeId) = (Some options, Inl e)"
    using assms(3) e by (simp add: awaitGeneration_def)
  have h: "fst (handleTriggerGeneration co ns cs nodeId) =
           updateNodeData nodeId
             (\<lambda>d. d\<lparr>status := Some Error, generatedImage := None, generatedImages := None\<rparr>) ns"
    using assms(1,2) a by (simp add: handleTriggerGeneration_def settle_error_after_loading)
  have n: "node_id t = nodeId"
    using assms(1) unfolding find_node_def by (auto dest: find_Some_iff [THEN iffD1])
  show ?thesis using h n assms(1) by (simp add: find_node_updateNodeData)
qed

text \<open>
  Two images requested, the second call fails.
\<close>

theorem partial_failure_fails_trigger_witness:
  "map (\<lambda>n. (status (data n), generatedImages (data n), generatedImage (data n),
             numberOfImages (data n), layers (data n) = layers (data two_image_generator)))
     (fst (handleTriggerGeneration (example_collaborators second_request_fails)
             [two_image_generator] [] (ascii ''g'')))
   = [(Some Error, None, None, Some 2, True)]"
proof -
  have t: "find_node [two_image_generator] (ascii ''g'') = Some two_image_generator"
    by (simp add: find_node_def two_image_generator_def generator_node_def newNode_def Let_def)
  have c: "compilePrompt (data two_image_generator) = Some (ascii ''sun'')"
    by (simp add: compilePrompt_def two_image_generator_def generator_node_def newNode_def
        orEmpty_def trim_def is_whitespace_def ascii_def Let_def)
  have s: "resolveSourceNodes [two_image_generator] [] (ascii ''g'') = []"
    by (simp add: resolveSourceNodes_def)
  have b: "buildOptions (example_collaborators second_request_fails) two_image_generator (ascii ''sun'')
             (resolveSourceNodes [two_image_generator] [] (ascii ''g''))
           = Inr \<lparr>opt_prompt = ascii ''sun'', opt_referenceImages = None,
                   opt_aspectRatio = Some R1_1, opt_imageResolution = Some Res1K,
                   opt_numberOfImages = 2\<rparr>"
    unfolding s by (rule two_image_options)
  have k: "1 < opt_numberOfImages \<lparr>opt_prompt = ascii ''sun'', opt_referenceImages = None,
                   opt_aspectRatio = Some R1_1, opt_imageResolution = Some Res1K,
                   opt_numberOfImages = 2\<rparr>"
    by simp
  have f: "\<forall>body. isl (remote (example_collaborators second_request_fails) 1 body)"
    by (simp add: example_collaborators_def second_request_fails_def)
  from partial_failure_fails_trigger [OF t c b k f]
  show ?thesis
    by (simp add: updateNodeData_def two_image_generator_def generator_node_def newNode_def Let_def)
qed

text \<open>
  The path of the handler without \<open>window.aistudio\<close> keeps the guard of the button:
  starting with no call pending, at most one call on a node awaits its outcome at any
  time, so no response of an earlier call can arrive after a later call was started.
\<close>

lemma one_call_in_flight_without_aistudio:
  assumes "waiting s0 = []" and "inFlight s0 = []"
  shows "length (inFlight (generation_run False nodeId evs s0)) \<le> 1"
proof -
  from assms have "one_in_flight nodeId s0" by (simp add: one_in_flight_def)
  then have "one_in_flight nodeId (generation_run False nodeId evs s0)"
    by (rule one_in_flight_run)
  then show ?thesis by (auto simp: one_in_flight_def)
qed

text \<open>
  C2 fails on the code. In a host with \<open>window.aistudio\<close> the handler awaits the key
  check before it sets the node to loading, so two clicks pass the button before
  either call has disabled it (without \<open>window.aistudio\<close> the second click starts
  nothing). Both calls then await their outcome; the response of the second arrives
  first and that of the first last, and the node ends with the images of the first
  call.
\<close>

theorem stale_response_overwrites_newer:
  "inFlight (generation_run False (ascii ''g'') [Click 1, Click 2] idle_generator) = [1]
   \<and> inFlight (generation_run True (ascii ''g'') [Click 1, Click 2, Resume 1, Resume 2] idle_generator)
   = [1, 2]
   \<and> map_option (\<lambda>n. (status (data n), generatedImages (data n), generatedImage (data n)))
       (find_node
          (canvas_nodes
             (generation_run True (ascii ''g'')
                [Click 1, Click 2, Resume 1, Resume 2,
                 Settle 2 (Inr [ascii ''data:image/png;base64,NEW'']),
                 Settle 1 (Inr [ascii ''data:image/png;base64,OLD''])]
                idle_generator))
          (ascii ''g''))
     = Some (Some Success, Some [ascii ''data:image/png;base64,OLD''],
             Some (ascii ''data:image/png;base64,OLD''))"
  by (simp add: run_simps)

end
